theory Spec2Isabelle
  imports Main "HOL-Library.Word"
begin

section \<open>The storage interface and its service (include/database_interface.h)\<close>

text \<open>
  C++ \<open>int\<close> is a 32-bit two's complement integer; \<open>sint\<close> reads its value.
  \<open>std::string\<close> is a \<open>string\<close>.
\<close>

type_synonym int32 = "32 word"

text \<open>
  \<open>class DatabaseInterface\<close> is abstract: thirteen pure virtual methods and no data.
  An implementation (a real store, or the \<open>MockDatabase\<close> of \<^verbatim>\<open>tests/mock_test.cpp\<close>) owns
  some state of a type \<open>'b\<close> that this layer never inspects. A method is therefore a
  function from its arguments and the implementation's state to its return value and the
  implementation's next state. \<open>isConnected\<close> and \<open>getLastError\<close> are \<open>const\<close> in
  C++, which does not stop an implementation from answering differently on the next call
  (a mock's expectations are consumed call by call), so they thread the state as well.
  \<open>executeQuery\<close> writes its rows through the reference parameter \<open>results\<close>; the
  model takes the vector in and returns it.
\<close>

record 'b DatabaseInterface =
  connect :: "string \<Rightarrow> 'b \<Rightarrow> bool \<times> 'b"
  disconnect :: "'b \<Rightarrow> 'b"
  isConnected :: "'b \<Rightarrow> bool \<times> 'b"
  insertUser :: "string \<Rightarrow> int32 \<Rightarrow> 'b \<Rightarrow> bool \<times> 'b"
  getUserName :: "int32 \<Rightarrow> 'b \<Rightarrow> string \<times> 'b"
  getUserAge :: "int32 \<Rightarrow> 'b \<Rightarrow> int32 \<times> 'b"
  updateUser :: "int32 \<Rightarrow> string \<Rightarrow> int32 \<Rightarrow> 'b \<Rightarrow> bool \<times> 'b"
  deleteUser :: "int32 \<Rightarrow> 'b \<Rightarrow> bool \<times> 'b"
  getAllUserNames :: "'b \<Rightarrow> string list \<times> 'b"
  getUserCount :: "'b \<Rightarrow> int32 \<times> 'b"
  executeQuery :: "string \<Rightarrow> string list \<Rightarrow> 'b \<Rightarrow> (bool \<times> string list) \<times> 'b"
  getLastError :: "'b \<Rightarrow> string \<times> 'b"
  clearError :: "'b \<Rightarrow> 'b"

text \<open>
  One entry of the log of virtual calls that went through \<open>database_\<close>: the method and
  the arguments it was called with. This is what a test double counts.
\<close>

datatype call =
    Connect string
  | Disconnect
  | IsConnected
  | InsertUser string int32
  | GetUserName int32
  | GetUserAge int32
  | UpdateUser int32 string int32
  | DeleteUser int32
  | GetAllUserNames
  | GetUserCount
  | ExecuteQuery string
  | GetLastError
  | ClearError

text \<open>
  \<open>class DatabaseService\<close> has two members: \<open>std::shared_ptr<DatabaseInterface>
  database_\<close>, where \<open>None\<close> is the null pointer, and \<open>bool initialized_ = false\<close>.
  They are the fields \<open>database\<close> and \<open>initialized\<close> here: an Isabelle name cannot end
  with an underscore. The pointer shares the implementation object with the caller, so the object's state is not
  a member; it is kept beside the members in \<open>backend\<close> (it means nothing while
  \<open>database_\<close> is null). \<open>calls\<close> is the log of the virtual calls made so far, oldest
  first.
\<close>

record 'b world =
  database :: "'b DatabaseInterface option"
  initialized :: bool
  backend :: 'b
  calls :: "call list"

text \<open>
  Calling a method through a null \<open>shared_ptr\<close> is undefined behaviour in C++. The model
  makes it a value, so that "this call never happens" is a statement that can be proved.
\<close>

datatype fault = NullDereference

text \<open>
  \<open>database_->m(args)\<close>: fails on the null pointer; otherwise runs the method of the
  bound implementation on the implementation's state and logs the call.
\<close>

definition vcall ::
  "call \<Rightarrow> ('b DatabaseInterface \<Rightarrow> 'b \<Rightarrow> 'r \<times> 'b) \<Rightarrow> 'b world \<Rightarrow> fault + ('r \<times> 'b world)" where
  "vcall c m s =
     (case database s of
        None \<Rightarrow> Inl NullDereference
      | Some d \<Rightarrow>
          (case m d (backend s) of
             (r, b') \<Rightarrow> Inr (r, s\<lparr>backend := b', calls := calls s @ [c]\<rparr>)))"

section \<open>DatabaseService (src/database.cpp)\<close>

text \<open>The constructor stores the pointer; \<open>initialized_\<close> takes its default, false.\<close>

definition DatabaseService :: "'b DatabaseInterface option \<Rightarrow> 'b \<Rightarrow> 'b world" where
  "DatabaseService db b = \<lparr>database = db, initialized = False, backend = b, calls = []\<rparr>"

text \<open>
  \<open>initializeConnection\<close>: the null test comes first and returns without a call;
  otherwise \<open>connect\<close> is called, \<open>initialized_\<close> is set when it answered true, and its
  answer is returned.
\<close>

definition initializeConnection :: "string \<Rightarrow> 'b world \<Rightarrow> fault + (bool \<times> 'b world)" where
  "initializeConnection connectionString s =
     (if database s = None then Inr (False, s)
      else
        (case vcall (Connect connectionString) (\<lambda>d. connect d connectionString) s of
           Inl e \<Rightarrow> Inl e
         | Inr (connected, s1) \<Rightarrow>
             if connected then Inr (connected, s1\<lparr>initialized := True\<rparr>)
             else Inr (connected, s1)))"

text \<open>
  The gate \<open>!initialized_ || !database_->isConnected()\<close> of the four data operations.
  \<open>||\<close> evaluates its right operand only when the left one is false, so
  \<open>isConnected\<close> is called only when \<open>initialized_\<close> is set. The result is true when
  the operation has to return its sentinel.
\<close>

definition gate_closed :: "'b world \<Rightarrow> fault + (bool \<times> 'b world)" where
  "gate_closed s =
     (if \<not> initialized s then Inr (True, s)
      else
        (case vcall IsConnected isConnected s of
           Inl e \<Rightarrow> Inl e
         | Inr (c, s1) \<Rightarrow> Inr (\<not> c, s1)))"

definition createUser :: "string \<Rightarrow> int32 \<Rightarrow> 'b world \<Rightarrow> fault + (bool \<times> 'b world)" where
  "createUser name age s =
     (case gate_closed s of
        Inl e \<Rightarrow> Inl e
      | Inr (closed, s1) \<Rightarrow>
          if closed then Inr (False, s1)
          else vcall (InsertUser name age) (\<lambda>d. insertUser d name age) s1)"

text \<open>
  \<open>std::to_string(int)\<close> of the C++ standard library prints as \<open>%d\<close> does: the decimal
  digits of the value, most significant first and without leading zeros, after a minus
  sign when the value is negative.
\<close>

definition digit_char :: "nat \<Rightarrow> char" where
  "digit_char n = char_of (48 + n)"

function digits :: "nat \<Rightarrow> string" where
  "digits n = (if n < 10 then [digit_char n] else digits (n div 10) @ [digit_char (n mod 10)])"
  by pat_completeness auto
termination
  by (relation "measure (\<lambda>n. n)") auto

declare digits.simps [simp del]

definition to_string :: "int32 \<Rightarrow> string" where
  "to_string v =
     (if sint v < 0 then CHR ''-'' # digits (nat (- sint v)) else digits (nat (sint v)))"

text \<open>
  \<open>getUserInfo\<close>: past the gate, the name and then the age are fetched, both before the
  name is tested; an empty name gives the empty string, any other name the formatted line.
\<close>

definition getUserInfo :: "int32 \<Rightarrow> 'b world \<Rightarrow> fault + (string \<times> 'b world)" where
  "getUserInfo userId s =
     (case gate_closed s of
        Inl e \<Rightarrow> Inl e
      | Inr (closed, s1) \<Rightarrow>
          if closed then Inr ([], s1)
          else
            (case vcall (GetUserName userId) (\<lambda>d. getUserName d userId) s1 of
               Inl e \<Rightarrow> Inl e
             | Inr (name, s2) \<Rightarrow>
                 (case vcall (GetUserAge userId) (\<lambda>d. getUserAge d userId) s2 of
                    Inl e \<Rightarrow> Inl e
                  | Inr (age, s3) \<Rightarrow>
                      if name = [] then Inr ([], s3)
                      else Inr (''Name: '' @ name @ '', Age: '' @ to_string age, s3))))"

definition removeUser :: "int32 \<Rightarrow> 'b world \<Rightarrow> fault + (bool \<times> 'b world)" where
  "removeUser userId s =
     (case gate_closed s of
        Inl e \<Rightarrow> Inl e
      | Inr (closed, s1) \<Rightarrow>
          if closed then Inr (False, s1)
          else vcall (DeleteUser userId) (\<lambda>d. deleteUser d userId) s1)"

definition getTotalUsers :: "'b world \<Rightarrow> fault + (int32 \<times> 'b world)" where
  "getTotalUsers s =
     (case gate_closed s of
        Inl e \<Rightarrow> Inl e
      | Inr (closed, s1) \<Rightarrow>
          if closed then Inr (- 1, s1)
          else vcall GetUserCount getUserCount s1)"

section \<open>Sequences of service operations\<close>

text \<open>
  The public interface of \<open>DatabaseService\<close> as a datatype of requests, the value each
  returns, and a caller that issues a list of requests one after the other.
\<close>

datatype request =
    InitializeConnection string
  | CreateUser string int32
  | GetUserInfo int32
  | RemoveUser int32
  | GetTotalUsers

datatype reply = RBool bool | RString string | RInt int32

definition answered :: "('r \<Rightarrow> reply) \<Rightarrow> fault + ('r \<times> 'b world) \<Rightarrow> fault + (reply \<times> 'b world)" where
  "answered k x = (case x of Inl e \<Rightarrow> Inl e | Inr (r, s) \<Rightarrow> Inr (k r, s))"

fun step :: "request \<Rightarrow> 'b world \<Rightarrow> fault + (reply \<times> 'b world)" where
  "step (InitializeConnection cs) s = answered RBool (initializeConnection cs s)"
| "step (CreateUser name age) s = answered RBool (createUser name age s)"
| "step (GetUserInfo userId) s = answered RString (getUserInfo userId s)"
| "step (RemoveUser userId) s = answered RBool (removeUser userId s)"
| "step GetTotalUsers s = answered RInt (getTotalUsers s)"

fun run :: "request list \<Rightarrow> 'b world \<Rightarrow> fault + (reply list \<times> 'b world)" where
  "run [] s = Inr ([], s)"
| "run (q # qs) s =
     (case step q s of
        Inl e \<Rightarrow> Inl e
      | Inr (r, s1) \<Rightarrow>
          (case run qs s1 of
             Inl e \<Rightarrow> Inl e
           | Inr (rs, s2) \<Rightarrow> Inr (r # rs, s2)))"

text \<open>The value a gated operation returns when the gate is closed.\<close>

fun sentinel :: "request \<Rightarrow> reply" where
  "sentinel (InitializeConnection cs) = RBool False"
| "sentinel (CreateUser name age) = RBool False"
| "sentinel (GetUserInfo userId) = RString []"
| "sentinel (RemoveUser userId) = RBool False"
| "sentinel GetTotalUsers = RInt (- 1)"

section \<open>A test double\<close>

text \<open>
  The \<open>MockDatabase\<close> of \<^verbatim>\<open>tests/mock_test.cpp\<close> with every expectation set to
  \<open>WillRepeatedly(Return(v))\<close>: each method answers a fixed value and the double has no
  state. The arguments are the answers of \<open>connect\<close>, \<open>isConnected\<close>,
  \<open>insertUser\<close>, \<open>getUserName\<close>, \<open>getUserAge\<close>, \<open>deleteUser\<close> and
  \<open>getUserCount\<close>; the methods the service never calls answer false or empty.
\<close>

definition MockDatabase ::
  "bool \<Rightarrow> bool \<Rightarrow> bool \<Rightarrow> string \<Rightarrow> int32 \<Rightarrow> bool \<Rightarrow> int32 \<Rightarrow> unit DatabaseInterface" where
  "MockDatabase conn isconn ins name age del cnt =
     \<lparr>connect = (\<lambda>cs b. (conn, b)),
      disconnect = (\<lambda>b. b),
      isConnected = (\<lambda>b. (isconn, b)),
      insertUser = (\<lambda>n a b. (ins, b)),
      getUserName = (\<lambda>i b. (name, b)),
      getUserAge = (\<lambda>i b. (age, b)),
      updateUser = (\<lambda>i n a b. (False, b)),
      deleteUser = (\<lambda>i b. (del, b)),
      getAllUserNames = (\<lambda>b. ([], b)),
      getUserCount = (\<lambda>b. (cnt, b)),
      executeQuery = (\<lambda>q rs b. ((False, rs), b)),
      getLastError = (\<lambda>b. ([], b)),
      clearError = (\<lambda>b. b)\<rparr>"

text \<open>
  A service bound to such a double after a successful \<open>initializeConnection\<close>: the double
  answers connected, and name \<open>name\<close> and age \<open>age\<close> for every id.
\<close>

definition ready :: "string \<Rightarrow> int32 \<Rightarrow> unit world" where
  "ready name age =
     \<lparr>database = Some (MockDatabase True True True name age True 1),
      initialized = True, backend = (), calls = [Connect ''test'']\<rparr>"

section \<open>Decimal notation\<close>

text \<open>
  What "rendered in decimal" means, independently of \<open>to_string\<close>: a reader of decimal
  numerals. It accepts a string only when it is a non-empty run of the characters
  \<open>0\<close> to \<open>9\<close> with no leading zero (the numeral \<open>0\<close> itself apart), or a minus sign
  followed by such a run that does not denote zero; then it returns the integer denoted,
  most significant digit first. Every other string is refused.
\<close>

definition digit_value :: "char \<Rightarrow> nat option" where
  "digit_value c =
     (if 48 \<le> (of_char c :: nat) \<and> (of_char c :: nat) \<le> 57 then Some (of_char c - 48) else None)"

fun read_digits :: "nat \<Rightarrow> string \<Rightarrow> nat option" where
  "read_digits acc [] = Some acc"
| "read_digits acc (c # cs) =
     (case digit_value c of
        None \<Rightarrow> None
      | Some d \<Rightarrow> read_digits (10 * acc + d) cs)"

fun read_nat :: "string \<Rightarrow> nat option" where
  "read_nat [] = None"
| "read_nat (c # cs) =
     (if c = CHR ''0'' \<and> cs \<noteq> [] then None else read_digits 0 (c # cs))"

fun read_decimal :: "string \<Rightarrow> int option" where
  "read_decimal [] = None"
| "read_decimal (c # cs) =
     (if c = CHR ''-'' then
        (case read_nat cs of
           None \<Rightarrow> None
         | Some n \<Rightarrow> if n = 0 then None else Some (- int n))
      else
        (case read_nat (c # cs) of
           None \<Rightarrow> None
         | Some n \<Rightarrow> Some (int n)))"

section \<open>Basic facts\<close>

lemma gate_closed_uninitialized: "\<not> initialized s \<Longrightarrow> gate_closed s = Inr (True, s)"
  by (simp add: gate_closed_def)

lemma gate_closed_bound:
  assumes "initialized s" and "database s = Some d" and "isConnected d (backend s) = (c, b1)"
  shows "gate_closed s = Inr (\<not> c, s\<lparr>backend := b1, calls := calls s @ [IsConnected]\<rparr>)"
  using assms by (simp add: gate_closed_def vcall_def)

lemma ready_initializeConnection:
  "initializeConnection ''test'' (DatabaseService (Some (MockDatabase True True True name age True 1)) ())
     = Inr (True, ready name age)"
  by (simp add: initializeConnection_def vcall_def DatabaseService_def MockDatabase_def ready_def)

subsection \<open>Virtual calls, the gate and the frame of each operation\<close>

lemma vcall_bound:
  assumes "database s = Some d" and "m d (backend s) = (r, b1)"
  shows "vcall c m s = Inr (r, s\<lparr>backend := b1, calls := calls s @ [c]\<rparr>)"
  using assms by (simp add: vcall_def)

lemma getUserInfo_open:
  assumes "initialized s" and "database s = Some d"
    and "isConnected d (backend s) = (True, b1)"
    and "getUserName d userId b1 = (name, b2)"
    and "getUserAge d userId b2 = (age, b3)"
  shows "getUserInfo userId s =
     Inr (if name = [] then [] else ''Name: '' @ name @ '', Age: '' @ to_string age,
          s\<lparr>backend := b3, calls := calls s @ [IsConnected, GetUserName userId, GetUserAge userId]\<rparr>)"
  using assms by (simp add: getUserInfo_def gate_closed_bound vcall_def)

lemma getUserInfo_closed:
  assumes "initialized s" and "database s = Some d"
    and "isConnected d (backend s) = (False, b1)"
  shows "getUserInfo userId s = Inr ([], s\<lparr>backend := b1, calls := calls s @ [IsConnected]\<rparr>)"
  by (simp add: getUserInfo_def gate_closed_bound [OF assms])

lemma getUserInfo_uninitialized: "\<not> initialized s \<Longrightarrow> getUserInfo userId s = Inr ([], s)"
  by (simp add: getUserInfo_def gate_closed_uninitialized)

lemma getUserInfo_no_name:
  assumes "initialized s" and "database s = Some d"
    and "isConnected d (backend s) = (True, b1)"
    and "fst (getUserName d userId b1) = []"
  shows "\<exists>s'. getUserInfo userId s = Inr ([], s')"
proof -
  obtain b2 where n: "getUserName d userId b1 = ([], b2)"
    using assms(4) by (cases "getUserName d userId b1") simp
  obtain a b3 where a: "getUserAge d userId b2 = (a, b3)"
    by (cases "getUserAge d userId b2") blast
  from getUserInfo_open [OF assms(1-3) n a] show ?thesis by simp
qed

lemma vcall_database: "vcall c m s = Inr (r, s') \<Longrightarrow> database s' = database s"
  by (auto simp: vcall_def split: option.splits prod.splits)

lemma vcall_initialized: "vcall c m s = Inr (r, s') \<Longrightarrow> initialized s' = initialized s"
  by (auto simp: vcall_def split: option.splits prod.splits)

lemma vcall_total: "database s \<noteq> None \<Longrightarrow> \<exists>r s'. vcall c m s = Inr (r, s')"
  by (auto simp: vcall_def split: option.splits prod.splits)

lemma gate_closed_database: "gate_closed s = Inr (r, s') \<Longrightarrow> database s' = database s"
  by (auto simp: gate_closed_def split: if_splits sum.splits dest: vcall_database)

lemma gate_closed_initialized: "gate_closed s = Inr (r, s') \<Longrightarrow> initialized s' = initialized s"
  by (auto simp: gate_closed_def split: if_splits sum.splits dest: vcall_initialized)

lemma gate_closed_total: "database s \<noteq> None \<Longrightarrow> \<exists>r s'. gate_closed s = Inr (r, s')"
  using vcall_total [of s IsConnected isConnected]
  by (auto simp: gate_closed_def)

lemma gated_frame:
  assumes g: "\<And>x s1. f s = Inr (x, s1) \<Longrightarrow>
        (case gate_closed s of Inl e \<Rightarrow> Inl e
         | Inr (closed, s0) \<Rightarrow> if closed then Inr (v, s0) else vcall c m s0) = Inr (x, s1)"
    and r: "f s = Inr (r, s')"
  shows "initialized s' = initialized s \<and> database s' = database s"
proof -
  from g [OF r] obtain closed s0 where gc: "gate_closed s = Inr (closed, s0)"
    and rest: "(if closed then Inr (v, s0) else vcall c m s0) = Inr (r, s')"
    by (auto split: sum.splits)
  from gc have 0: "initialized s0 = initialized s" "database s0 = database s"
    by (simp_all add: gate_closed_initialized gate_closed_database)
  show ?thesis
  proof (cases closed)
    case True
    with rest 0 show ?thesis by simp
  next
    case False
    with rest have "vcall c m s0 = Inr (r, s')" by simp
    with 0 show ?thesis by (simp add: vcall_initialized vcall_database)
  qed
qed

lemma createUser_frame:
  "createUser name age s = Inr (r, s') \<Longrightarrow> initialized s' = initialized s \<and> database s' = database s"
  by (rule gated_frame [where f = "createUser name age" and v = False]) (simp_all add: createUser_def)

lemma removeUser_frame:
  "removeUser userId s = Inr (r, s') \<Longrightarrow> initialized s' = initialized s \<and> database s' = database s"
  by (rule gated_frame [where f = "removeUser userId" and v = False]) (simp_all add: removeUser_def)

lemma getTotalUsers_frame:
  "getTotalUsers s = Inr (r, s') \<Longrightarrow> initialized s' = initialized s \<and> database s' = database s"
  by (rule gated_frame [where f = "getTotalUsers" and v = "- 1"]) (simp_all add: getTotalUsers_def)

lemma getUserInfo_frame:
  assumes "getUserInfo userId s = Inr (r, s')"
  shows "initialized s' = initialized s \<and> database s' = database s"
proof -
  from assms obtain closed s0 where gc: "gate_closed s = Inr (closed, s0)"
    by (auto simp: getUserInfo_def split: sum.splits)
  then have 0: "initialized s0 = initialized s" "database s0 = database s"
    by (simp_all add: gate_closed_initialized gate_closed_database)
  show ?thesis
  proof (cases closed)
    case True
    with assms gc 0 show ?thesis by (simp add: getUserInfo_def)
  next
    case False
    with assms gc obtain n s2 a where
      1: "vcall (GetUserName userId) (\<lambda>d. getUserName d userId) s0 = Inr (n, s2)"
      and 2: "vcall (GetUserAge userId) (\<lambda>d. getUserAge d userId) s2 = Inr (a, s')"
      by (auto simp: getUserInfo_def split: sum.splits if_splits)
    from 1 2 0 show ?thesis
      by (simp add: vcall_initialized vcall_database)
  qed
qed

lemma initializeConnection_frame:
  assumes "initializeConnection cs s = Inr (r, s')"
  shows "initialized s' = (r \<or> initialized s) \<and> database s' = database s"
  using assms
  by (auto simp: initializeConnection_def vcall_def split: if_splits option.splits prod.splits)

lemma step_frame:
  assumes "step q s = Inr (r, s')"
  shows "database s' = database s"
    and "initialized s \<Longrightarrow> initialized s'"
    and "\<not> initialized s \<Longrightarrow> initialized s' \<Longrightarrow> (\<exists>cs. q = InitializeConnection cs) \<and> r = RBool True"
  using assms
  by (cases q; auto simp: answered_def split: sum.splits
        dest: createUser_frame removeUser_frame getTotalUsers_frame getUserInfo_frame
              initializeConnection_frame)+

lemma step_total:
  assumes "database s \<noteq> None"
  shows "\<exists>r s'. step q s = Inr (r, s')"
proof -
  obtain closed s0 where gc: "gate_closed s = Inr (closed, s0)"
    using gate_closed_total [OF assms] by blast
  then have d0: "database s0 \<noteq> None"
    using assms by (simp add: gate_closed_database)
  show ?thesis
  proof (cases q)
    case (InitializeConnection cs)
    from vcall_total [OF assms, of "Connect cs" "\<lambda>d. connect d cs"]
    show ?thesis using assms InitializeConnection
      by (auto simp: answered_def initializeConnection_def)
  next
    case (CreateUser name age)
    from vcall_total [OF d0, of "InsertUser name age" "\<lambda>d. insertUser d name age"]
    show ?thesis using gc CreateUser
      by (auto simp: answered_def createUser_def)
  next
    case (GetUserInfo userId)
    obtain n s2 where 1: "vcall (GetUserName userId) (\<lambda>d. getUserName d userId) s0 = Inr (n, s2)"
      using vcall_total [OF d0, of "GetUserName userId" "\<lambda>d. getUserName d userId"] by blast
    then have "database s2 \<noteq> None" using d0 by (simp add: vcall_database)
    then obtain a s3 where 2: "vcall (GetUserAge userId) (\<lambda>d. getUserAge d userId) s2 = Inr (a, s3)"
      using vcall_total [of s2 "GetUserAge userId" "\<lambda>d. getUserAge d userId"] by blast
    show ?thesis using gc 1 2 GetUserInfo
      by (simp add: answered_def getUserInfo_def)
  next
    case (RemoveUser userId)
    from vcall_total [OF d0, of "DeleteUser userId" "\<lambda>d. deleteUser d userId"]
    show ?thesis using gc RemoveUser
      by (auto simp: answered_def removeUser_def)
  next
    case GetTotalUsers
    from vcall_total [OF d0, of GetUserCount getUserCount]
    show ?thesis using gc GetTotalUsers
      by (auto simp: answered_def getTotalUsers_def)
  qed
qed

lemma run_total: "database s \<noteq> None \<Longrightarrow> \<exists>rs s'. run qs s = Inr (rs, s')"
proof (induction qs arbitrary: s)
  case Nil
  then show ?case by simp
next
  case (Cons q qs)
  from step_total [OF Cons.prems] obtain r s1 where 1: "step q s = Inr (r, s1)" by blast
  with Cons.prems have "database s1 \<noteq> None" by (simp add: step_frame(1))
  from Cons.IH [OF this] obtain rs s2 where "run qs s1 = Inr (rs, s2)" by blast
  with 1 show ?case by simp
qed

lemma run_initialized: "initialized s \<Longrightarrow> run qs s = Inr (rs, s') \<Longrightarrow> initialized s'"
proof (induction qs arbitrary: s rs)
  case Nil
  then show ?case by simp
next
  case (Cons q qs)
  from Cons.prems(2) obtain r s1 rs1 where 1: "step q s = Inr (r, s1)"
    and 2: "run qs s1 = Inr (rs1, s')"
    by (auto split: sum.splits)
  from step_frame(2) [OF 1 Cons.prems(1)] have "initialized s1" .
  from Cons.IH [OF this 2] show ?case .
qed

lemma step_null:
  assumes "database s = None" and "\<not> initialized s"
  shows "step q s = Inr (sentinel q, s)"
  using assms
  by (cases q)
     (simp_all add: answered_def initializeConnection_def createUser_def getUserInfo_def
        removeUser_def getTotalUsers_def gate_closed_uninitialized)

lemma run_null:
  assumes "database s = None" and "\<not> initialized s"
  shows "run qs s = Inr (map sentinel qs, s)"
  by (induction qs) (simp_all add: step_null [OF assms])

subsection \<open>\<open>to_string\<close> writes decimal notation, and nothing else is\<close>

lemma read_decimal_refuses:
  "read_decimal [] = None \<and> read_decimal ''-'' = None \<and> read_decimal ''-0'' = None
   \<and> read_decimal ''05'' = None \<and> read_decimal '':'' = None \<and> read_decimal ''1/'' = None
   \<and> read_decimal ''2a'' = None \<and> read_decimal ''+7'' = None"
  by (simp add: digit_value_def)

lemma read_decimal_accepts:
  "read_decimal ''0'' = Some 0 \<and> read_decimal ''25'' = Some 25
   \<and> read_decimal ''-120'' = Some (- 120)"
  by (simp add: digit_value_def)

lemma digit_value_digit_char: "n < 10 \<Longrightarrow> digit_value (digit_char n) = Some n"
  by (simp add: digit_value_def digit_char_def)

lemma digit_char_digit_value:
  assumes "digit_value c = Some d"
  shows "d < 10 \<and> digit_char d = c"
proof -
  from assms have r: "48 \<le> (of_char c :: nat)" "(of_char c :: nat) \<le> 57" and d: "d = of_char c - 48"
    by (auto simp: digit_value_def split: if_splits)
  then have "48 + d = of_char c" by simp
  then have "digit_char d = char_of (of_char c :: nat)" by (simp add: digit_char_def)
  with r d show ?thesis by simp
qed

lemma digit_char_0: "digit_char 0 = CHR ''0''"
proof -
  have "(of_char (digit_char 0) :: nat) = of_char (CHR ''0'')" by (simp add: digit_char_def)
  then show ?thesis by (simp only: of_char_eq_iff)
qed

lemma digit_char_zero: "n < 10 \<Longrightarrow> (digit_char n = CHR ''0'') = (n = 0)"
proof
  assume "n < 10" and "digit_char n = CHR ''0''"
  then have "of_char (digit_char n) = (of_char (CHR ''0'') :: nat)" by simp
  with \<open>n < 10\<close> show "n = 0" by (simp add: digit_char_def)
next
  assume "n = 0"
  then show "digit_char n = CHR ''0''" by (simp add: digit_char_0)
qed

lemma digit_char_not_minus: "n < 10 \<Longrightarrow> digit_char n \<noteq> CHR ''-''"
proof
  assume "n < 10" and "digit_char n = CHR ''-''"
  then have "of_char (digit_char n) = (of_char (CHR ''-'') :: nat)" by simp
  with \<open>n < 10\<close> show False by (simp add: digit_char_def)
qed

lemma read_digits_snoc:
  "read_digits acc (cs @ [c]) =
     (case read_digits acc cs of
        None \<Rightarrow> None
      | Some m \<Rightarrow> (case digit_value c of None \<Rightarrow> None | Some d \<Rightarrow> Some (10 * m + d)))"
  by (induction cs arbitrary: acc) (simp_all split: option.splits)

lemma read_digits_digits: "read_digits 0 (digits n) = Some n"
proof (induction n rule: digits.induct)
  case (1 n)
  show ?case
  proof (cases "n < 10")
    case True
    then show ?thesis
      by (simp add: digits.simps [of n] digit_value_digit_char)
  next
    case False
    with "1" have "read_digits 0 (digits (n div 10)) = Some (n div 10)" by simp
    with False show ?thesis
      by (simp add: digits.simps [of n] read_digits_snoc digit_value_digit_char)
  qed
qed

lemma digits_head:
  "\<exists>c cs. digits n = c # cs \<and> c \<noteq> CHR ''-'' \<and> (c = CHR ''0'' \<longrightarrow> n = 0 \<and> cs = [])"
proof (induction n rule: digits.induct)
  case (1 n)
  show ?case
  proof (cases "n < 10")
    case True
    then show ?thesis
      by (simp add: digits.simps [of n] digit_char_not_minus digit_char_zero)
  next
    case False
    with "1" obtain c cs where "digits (n div 10) = c # cs" and "c \<noteq> CHR ''-''"
      and "c = CHR ''0'' \<longrightarrow> n div 10 = 0"
      by blast
    moreover from False have "n div 10 \<noteq> 0" by arith
    ultimately show ?thesis using False
      by (simp add: digits.simps [of n])
  qed
qed

lemma read_nat_digits: "read_nat (digits n) = Some n"
proof -
  obtain c cs where d: "digits n = c # cs" and z: "c = CHR ''0'' \<longrightarrow> cs = []"
    using digits_head by blast
  from read_digits_digits [of n] d z show ?thesis by auto
qed

lemma read_decimal_digits: "read_decimal (digits n) = Some (int n)"
proof -
  obtain c cs where d: "digits n = c # cs" and c: "c \<noteq> CHR ''-''"
    using digits_head by blast
  from read_nat_digits [of n] d c show ?thesis by simp
qed

lemma read_decimal_to_string: "read_decimal (to_string v) = Some (sint v)"
proof (cases "sint v < 0")
  case True
  then show ?thesis by (simp add: to_string_def read_nat_digits)
next
  case False
  then show ?thesis by (simp add: to_string_def read_decimal_digits)
qed

lemma read_nat_unique: "read_nat cs = Some n \<Longrightarrow> cs = digits n"
proof (induction cs arbitrary: n rule: rev_induct)
  case Nil
  then show ?case by simp
next
  case (snoc c xs)
  show ?case
  proof (cases xs)
    case Nil
    with snoc.prems have "digit_value c = Some n"
      by (simp split: option.splits)
    then have "n < 10" and "digit_char n = c"
      using digit_char_digit_value by blast+
    with Nil show ?thesis by (simp add: digits.simps [of n])
  next
    case (Cons y ys)
    with snoc.prems have y: "y \<noteq> CHR ''0''"
      and r: "read_digits 0 (xs @ [c]) = Some n"
      by (auto split: if_splits)
    from r obtain m d where m: "read_digits 0 xs = Some m"
      and d: "digit_value c = Some d" and n: "n = 10 * m + d"
      by (auto simp: read_digits_snoc split: option.splits)
    from m y Cons have "read_nat xs = Some m" by simp
    then have xs: "xs = digits m" by (rule snoc.IH)
    have "m \<noteq> 0"
    proof
      assume "m = 0"
      with xs Cons have "y = CHR ''0''"
        by (simp add: digits.simps [of 0] digit_char_0)
      with y show False by simp
    qed
    from d have d10: "d < 10" and dc: "digit_char d = c"
      using digit_char_digit_value by blast+
    from \<open>m \<noteq> 0\<close> n d10 have "\<not> n < 10" "n div 10 = m" "n mod 10 = d" by simp_all
    with xs dc show ?thesis by (simp add: digits.simps [of n])
  qed
qed

lemma read_decimal_unique:
  assumes "read_decimal str = Some (sint v)"
  shows "str = to_string v"
proof (cases str)
  case Nil
  with assms show ?thesis by simp
next
  case (Cons c cs)
  show ?thesis
  proof (cases "c = CHR ''-''")
    case True
    with assms Cons obtain n where n: "read_nat cs = Some n" and "n \<noteq> 0"
      and "sint v = - int n"
      by (auto split: option.splits if_splits)
    then have "sint v < 0" and "nat (- sint v) = n" by simp_all
    with read_nat_unique [OF n] Cons True show ?thesis by (simp add: to_string_def)
  next
    case False
    with assms Cons obtain n where n: "read_nat str = Some n" and "sint v = int n"
      by (auto split: option.splits)
    then have "\<not> sint v < 0" and "nat (sint v) = n" by simp_all
    with read_nat_unique [OF n] show ?thesis by (simp add: to_string_def)
  qed
qed

lemma to_string_decimal: "(read_decimal str = Some (sint v)) = (str = to_string v)"
  using read_decimal_unique read_decimal_to_string by blast

lemma to_string_25: "to_string 25 = ''25''"
  by code_simp

section \<open>Properties of the service\<close>

text \<open>
  C1. While \<open>initialized_\<close> is false, each of the four gated operations returns its
  sentinel (false for \<open>createUser\<close> and \<open>removeUser\<close>, the empty string for
  \<open>getUserInfo\<close>, \<open>-1\<close> for \<open>getTotalUsers\<close>) and leaves everything as it was. The
  log of calls is part of what is left unchanged, so no method of the backend is invoked:
  neither the data method (\<open>insertUser\<close>, \<open>getUserName\<close>, \<open>getUserAge\<close>,
  \<open>deleteUser\<close>, \<open>getUserCount\<close>) nor \<open>isConnected\<close>.
\<close>

theorem gated_operations_uninitialized:
  assumes "\<not> initialized s"
  shows "createUser name age s = Inr (False, s)
       \<and> getUserInfo userId s = Inr ([], s)
       \<and> removeUser userId s = Inr (False, s)
       \<and> getTotalUsers s = Inr (- 1, s)"
  using assms by (simp add: createUser_def getUserInfo_def removeUser_def getTotalUsers_def gate_closed_uninitialized)

theorem gated_operations_uninitialized_witness:
  "\<not> initialized (DatabaseService (Some (MockDatabase True True True ''Alice'' 25 True 1)) ())
   \<and> createUser ''Alice'' 25 (DatabaseService (Some (MockDatabase True True True ''Alice'' 25 True 1)) ())
       = Inr (False, DatabaseService (Some (MockDatabase True True True ''Alice'' 25 True 1)) ())
   \<and> calls (DatabaseService (Some (MockDatabase True True True ''Alice'' 25 True 1)) ()) = []"
  using gated_operations_uninitialized [of "DatabaseService (Some (MockDatabase True True True ''Alice'' 25 True 1)) ()" "''Alice''" 25]
  by (simp add: DatabaseService_def)

text \<open>
  C2, as the code has it. Past the gate, \<open>getUserInfo\<close> calls \<open>getUserName\<close> and then
  \<open>getUserAge\<close>, once each, before it looks at the name. When the name is the empty
  string the age that was fetched is dropped and the empty string is returned. The age
  lookup is made, not skipped.
\<close>

theorem getUserInfo_empty_name_age_fetched:
  assumes "initialized s" and "database s = Some d"
    and "isConnected d (backend s) = (True, b1)"
    and "getUserName d userId b1 = ([], b2)"
    and "getUserAge d userId b2 = (age, b3)"
  shows "getUserInfo userId s =
     Inr ([], s\<lparr>backend := b3, calls := calls s @ [IsConnected, GetUserName userId, GetUserAge userId]\<rparr>)"
  using getUserInfo_open [OF assms] by simp

theorem getUserInfo_empty_name_age_fetched_witness:
  "getUserInfo 1 (ready [] 25)
     = Inr ([], (ready [] 25)\<lparr>calls := [Connect ''test'', IsConnected, GetUserName 1, GetUserAge 1]\<rparr>)"
proof -
  have "initialized (ready [] 25)"
    and "database (ready [] 25) = Some (MockDatabase True True True [] 25 True 1)"
    and "isConnected (MockDatabase True True True [] 25 True 1) (backend (ready [] 25)) = (True, ())"
    and "getUserName (MockDatabase True True True [] 25 True 1) 1 () = ([], ())"
    and "getUserAge (MockDatabase True True True [] 25 True 1) 1 () = (25, ())"
    by (simp_all add: ready_def MockDatabase_def)
  from getUserInfo_empty_name_age_fetched [OF this] show ?thesis by (simp add: ready_def)
qed

text \<open>
  The double answers the empty name for id 1, and the log of the call shows
  \<open>getUserAge 1\<close> after \<open>getUserName 1\<close>: the age lookup was made.
\<close>

theorem getUserInfo_age_skipped_counterexample:
  "getUserName (MockDatabase True True True [] 25 True 1) 1 () = ([], ())
   \<and> getUserInfo 1 (ready [] 25)
       = Inr ([], (ready [] 25)\<lparr>calls := [Connect ''test'', IsConnected, GetUserName 1, GetUserAge 1]\<rparr>)
   \<and> count_list [Connect ''test'', IsConnected, GetUserName 1, GetUserAge 1] (GetUserAge 1) = 1"
  by (simp add: getUserInfo_def gate_closed_def vcall_def ready_def MockDatabase_def)

text \<open>
  C3. When the service is initialized, the backend answers connected and its
  \<open>getUserName\<close> answers the empty string for the id, \<open>getUserInfo\<close> returns the
  empty string: with the backend as it is, and with its \<open>getUserAge\<close> replaced by any
  other function \<open>g\<close>, so whatever the age lookup would answer.
\<close>

theorem getUserInfo_empty_name_any_age:
  assumes "initialized s" and "database s = Some d"
    and "isConnected d (backend s) = (True, b1)"
    and "fst (getUserName d userId b1) = []"
  shows "(\<exists>s'. getUserInfo userId s = Inr ([], s'))
       \<and> (\<exists>s'. getUserInfo userId (s\<lparr>database := Some (d\<lparr>getUserAge := g\<rparr>)\<rparr>) = Inr ([], s'))"
proof
  show "\<exists>s'. getUserInfo userId s = Inr ([], s')"
    using assms by (rule getUserInfo_no_name)
next
  let ?d = "d\<lparr>getUserAge := g\<rparr>"
  let ?s = "s\<lparr>database := Some ?d\<rparr>"
  have "initialized ?s" and "database ?s = Some ?d"
    and "isConnected ?d (backend ?s) = (True, b1)"
    and "fst (getUserName ?d userId b1) = []"
    using assms by simp_all
  then show "\<exists>s'. getUserInfo userId ?s = Inr ([], s')"
    by (rule getUserInfo_no_name)
qed

theorem getUserInfo_empty_name_any_age_witness:
  "(\<exists>s'. getUserInfo 7 (ready [] 25) = Inr ([], s'))
   \<and> (\<exists>s'. getUserInfo 7 ((ready [] 25)\<lparr>database := Some (MockDatabase True True True [] 99 True 1)\<rparr>) = Inr ([], s'))"
proof -
  have m: "(MockDatabase True True True [] 25 True 1)\<lparr>getUserAge := (\<lambda>i b. (99, b))\<rparr>
             = MockDatabase True True True [] 99 True 1"
    by (simp add: MockDatabase_def)
  have "initialized (ready [] 25)"
    and "database (ready [] 25) = Some (MockDatabase True True True [] 25 True 1)"
    and "isConnected (MockDatabase True True True [] 25 True 1) (backend (ready [] 25)) = (True, ())"
    and "fst (getUserName (MockDatabase True True True [] 25 True 1) 7 ()) = []"
    by (simp_all add: ready_def MockDatabase_def)
  from getUserInfo_empty_name_any_age [OF this, of "\<lambda>i b. (99, b)"] show ?thesis by (simp only: m)
qed

text \<open>
  C4. When the service is initialized, the backend answers connected, a non-empty name and
  an age, \<open>getUserInfo\<close> returns \<open>"Name: "\<close>, the name, \<open>", Age: "\<close> and the age as
  \<open>to_string\<close> writes it. What \<open>to_string\<close> writes is the decimal numeral of the age:
  a string is read by the decimal reader as the age's value exactly when it is the string
  \<open>to_string\<close> wrote, so the rendering consists of a minus sign for a negative age and
  digits \<open>0\<close> to \<open>9\<close> without a leading zero, and no other string would do. For the name
  Alice and the age 25 the result is \<open>"Name: Alice, Age: 25"\<close>.
\<close>

theorem getUserInfo_format:
  assumes "initialized s" and "database s = Some d"
    and "isConnected d (backend s) = (True, b1)"
    and "getUserName d userId b1 = (name, b2)" and "name \<noteq> []"
    and "getUserAge d userId b2 = (age, b3)"
  shows "getUserInfo userId s =
           Inr (''Name: '' @ name @ '', Age: '' @ to_string age,
                s\<lparr>backend := b3, calls := calls s @ [IsConnected, GetUserName userId, GetUserAge userId]\<rparr>)
       \<and> (read_decimal str = Some (sint age)) = (str = to_string age)
       \<and> (name = ''Alice'' \<and> age = 25 \<longrightarrow>
            (\<exists>s'. getUserInfo userId s = Inr (''Name: Alice, Age: 25'', s')))"
proof -
  from getUserInfo_open [OF assms(1-4) assms(6)] assms(5)
  have "getUserInfo userId s =
           Inr (''Name: '' @ name @ '', Age: '' @ to_string age,
                s\<lparr>backend := b3, calls := calls s @ [IsConnected, GetUserName userId, GetUserAge userId]\<rparr>)"
    by simp
  then show ?thesis by (simp add: to_string_decimal to_string_25)
qed

theorem getUserInfo_format_witness:
  "getUserInfo 1 (ready ''Alice'' 25)
     = Inr (''Name: Alice, Age: 25'', (ready ''Alice'' 25)\<lparr>calls := [Connect ''test'', IsConnected, GetUserName 1, GetUserAge 1]\<rparr>)
   \<and> to_string 25 = ''25''
   \<and> read_decimal ''25'' = Some 25"
proof -
  have "initialized (ready ''Alice'' 25)"
    and "database (ready ''Alice'' 25) = Some (MockDatabase True True True ''Alice'' 25 True 1)"
    and "isConnected (MockDatabase True True True ''Alice'' 25 True 1) (backend (ready ''Alice'' 25)) = (True, ())"
    and "getUserName (MockDatabase True True True ''Alice'' 25 True 1) 1 () = (''Alice'', ())"
    and "''Alice'' \<noteq> []"
    and "getUserAge (MockDatabase True True True ''Alice'' 25 True 1) 1 () = (25, ())"
    by (simp_all add: ready_def MockDatabase_def)
  from getUserInfo_format [OF this, where str = "''25''"] show ?thesis
    by (simp add: ready_def to_string_25)
qed

text \<open>
  C5. With a null \<open>database_\<close>, \<open>initializeConnection\<close> returns false for every
  connection string and changes nothing: \<open>initialized_\<close> keeps its value (false, for a
  service that was constructed with the null pointer) and the log of calls gets no entry.
\<close>

theorem initializeConnection_unbound:
  assumes "database s = None"
  shows "initializeConnection connectionString s = Inr (False, s)"
  using assms by (simp add: initializeConnection_def)

theorem initializeConnection_unbound_witness:
  "database (DatabaseService None ()) = None
   \<and> initializeConnection ''test'' (DatabaseService None ()) = Inr (False, DatabaseService None ())
   \<and> \<not> initialized (DatabaseService None ())
   \<and> calls (DatabaseService None ()) = []"
  using initializeConnection_unbound [of "DatabaseService None ()" "''test''"]
  by (simp add: DatabaseService_def)

text \<open>
  C6. With a bound backend, \<open>initializeConnection\<close> calls the backend's \<open>connect\<close>
  with the connection string, once, and returns its answer. When the answer is true
  \<open>initialized_\<close> is true afterwards; when it is false \<open>initialized_\<close> keeps the value
  it had, so an uninitialized service stays uninitialized.
\<close>

theorem initializeConnection_bound:
  assumes "database s = Some d" and "connect d connectionString (backend s) = (connected, b1)"
  shows "initializeConnection connectionString s =
     Inr (connected,
          s\<lparr>initialized := (connected \<or> initialized s), backend := b1,
            calls := calls s @ [Connect connectionString]\<rparr>)"
  using assms by (simp add: initializeConnection_def vcall_def)

theorem initializeConnection_bound_witness:
  "initializeConnection ''test'' (DatabaseService (Some (MockDatabase True True True ''Alice'' 25 True 1)) ())
     = Inr (True, ready ''Alice'' 25)
   \<and> initializeConnection ''test'' (DatabaseService (Some (MockDatabase False True True ''Alice'' 25 True 1)) ())
     = Inr (False, (DatabaseService (Some (MockDatabase False True True ''Alice'' 25 True 1)) ())\<lparr>calls := [Connect ''test'']\<rparr>)"
proof -
  have a: "database (DatabaseService (Some (MockDatabase c True True ''Alice'' 25 True 1)) ())
        = Some (MockDatabase c True True ''Alice'' 25 True 1)"
    and b: "connect (MockDatabase c True True ''Alice'' 25 True 1) ''test''
          (backend (DatabaseService (Some (MockDatabase c True True ''Alice'' 25 True 1)) ())) = (c, ())" for c
    by (simp_all add: DatabaseService_def MockDatabase_def)
  from initializeConnection_bound [OF a b, of True] initializeConnection_bound [OF a b, of False] show ?thesis
    by (simp add: DatabaseService_def ready_def)
qed

text \<open>
  C7. Once \<open>initialized_\<close> is true it stays true through every sequence of service
  operations: whenever such a sequence returns, and it always returns when a backend is
  bound. The only step that takes \<open>initialized_\<close> from false to true is an
  \<open>initializeConnection\<close> that returns true.
\<close>

theorem initialized_never_reset:
  "(initialized s \<and> run qs s = Inr (rs, s') \<longrightarrow> initialized s')
   \<and> (initialized s \<and> database s \<noteq> None \<longrightarrow> (\<exists>rs1 s1. run qs s = Inr (rs1, s1) \<and> initialized s1))
   \<and> (\<not> initialized s \<and> step q s = Inr (r, s2) \<and> initialized s2 \<longrightarrow>
        (\<exists>cs. q = InitializeConnection cs) \<and> r = RBool True)"
proof (intro conjI impI)
  assume "initialized s \<and> run qs s = Inr (rs, s')"
  then show "initialized s'" using run_initialized by blast
next
  assume a: "initialized s \<and> database s \<noteq> None"
  then obtain rs1 s1 where "run qs s = Inr (rs1, s1)" using run_total by blast
  with a show "\<exists>rs1 s1. run qs s = Inr (rs1, s1) \<and> initialized s1"
    using run_initialized by blast
next
  assume "\<not> initialized s \<and> step q s = Inr (r, s2) \<and> initialized s2"
  then show "\<exists>cs. q = InitializeConnection cs" and "r = RBool True"
    using step_frame(3) by blast+
qed

theorem initialized_never_reset_witness:
  "initialized (ready ''Alice'' 25)
   \<and> run [CreateUser ''Bob'' 30, GetUserInfo 1, InitializeConnection ''again'', RemoveUser 1, GetTotalUsers]
         (ready ''Alice'' 25)
       = Inr ([RBool True, RString ''Name: Alice, Age: 25'', RBool True, RBool True, RInt 1],
              (ready ''Alice'' 25)\<lparr>calls := [Connect ''test'', IsConnected, InsertUser ''Bob'' 30,
                 IsConnected, GetUserName 1, GetUserAge 1, Connect ''again'', IsConnected,
                 DeleteUser 1, IsConnected, GetUserCount]\<rparr>)
   \<and> initialized ((ready ''Alice'' 25)\<lparr>calls := [Connect ''test'', IsConnected, InsertUser ''Bob'' 30,
                 IsConnected, GetUserName 1, GetUserAge 1, Connect ''again'', IsConnected,
                 DeleteUser 1, IsConnected, GetUserCount]\<rparr>)
   \<and> database (ready ''Alice'' 25) \<noteq> None
   \<and> \<not> initialized (DatabaseService (Some (MockDatabase True True True ''Alice'' 25 True 1)) ())
   \<and> step (InitializeConnection ''test'') (DatabaseService (Some (MockDatabase True True True ''Alice'' 25 True 1)) ())
       = Inr (RBool True, ready ''Alice'' 25)"
proof -
  let ?qs = "[CreateUser ''Bob'' 30, GetUserInfo 1, InitializeConnection ''again'', RemoveUser 1, GetTotalUsers]"
  let ?s' = "(ready ''Alice'' 25)\<lparr>calls := [Connect ''test'', IsConnected, InsertUser ''Bob'' 30,
                 IsConnected, GetUserName 1, GetUserAge 1, Connect ''again'', IsConnected,
                 DeleteUser 1, IsConnected, GetUserCount]\<rparr>"
  let ?s0 = "DatabaseService (Some (MockDatabase True True True ''Alice'' 25 True 1)) ()"
  have i: "initialized (ready ''Alice'' 25)" and d: "database (ready ''Alice'' 25) \<noteq> None"
    by (simp_all add: ready_def)
  have r: "run ?qs (ready ''Alice'' 25)
       = Inr ([RBool True, RString ''Name: Alice, Age: 25'', RBool True, RBool True, RInt 1], ?s')"
    by (simp add: answered_def createUser_def getUserInfo_def initializeConnection_def
          removeUser_def getTotalUsers_def gate_closed_def vcall_def ready_def MockDatabase_def
          to_string_25)
  have u: "\<not> initialized ?s0" by (simp add: DatabaseService_def)
  have st: "step (InitializeConnection ''test'') ?s0 = Inr (RBool True, ready ''Alice'' 25)"
    by (simp add: answered_def ready_initializeConnection)
  from initialized_never_reset [of "ready ''Alice'' 25" ?qs
      "[RBool True, RString ''Name: Alice, Age: 25'', RBool True, RBool True, RInt 1]" ?s'
      "InitializeConnection ''test''" "RBool True" "ready ''Alice'' 25"] i d r u st
  show ?thesis by simp
qed

text \<open>
  C8. When the service is initialized and the backend answers connected, \<open>createUser\<close>
  returns what the backend's \<open>insertUser\<close> returns for the same name and age,
  \<open>removeUser\<close> what \<open>deleteUser\<close> returns for the same id, and \<open>getTotalUsers\<close>
  what \<open>getUserCount\<close> returns; each makes exactly that one call after \<open>isConnected\<close>.
\<close>

theorem gated_operations_delegate:
  assumes "initialized s" and "database s = Some d"
    and "isConnected d (backend s) = (True, b1)"
  shows "createUser name age s =
           Inr (fst (insertUser d name age b1),
                s\<lparr>backend := snd (insertUser d name age b1),
                  calls := calls s @ [IsConnected, InsertUser name age]\<rparr>)
       \<and> removeUser userId s =
           Inr (fst (deleteUser d userId b1),
                s\<lparr>backend := snd (deleteUser d userId b1),
                  calls := calls s @ [IsConnected, DeleteUser userId]\<rparr>)
       \<and> getTotalUsers s =
           Inr (fst (getUserCount d b1),
                s\<lparr>backend := snd (getUserCount d b1),
                  calls := calls s @ [IsConnected, GetUserCount]\<rparr>)"
  by (simp add: createUser_def removeUser_def getTotalUsers_def gate_closed_bound [OF assms]
        vcall_def assms(2) split: prod.splits)

theorem gated_operations_delegate_witness:
  "createUser ''Bob'' 30 (ready ''Alice'' 25)
     = Inr (True, (ready ''Alice'' 25)\<lparr>calls := [Connect ''test'', IsConnected, InsertUser ''Bob'' 30]\<rparr>)
   \<and> removeUser 1 (ready ''Alice'' 25)
     = Inr (True, (ready ''Alice'' 25)\<lparr>calls := [Connect ''test'', IsConnected, DeleteUser 1]\<rparr>)
   \<and> getTotalUsers (ready ''Alice'' 25)
     = Inr (1, (ready ''Alice'' 25)\<lparr>calls := [Connect ''test'', IsConnected, GetUserCount]\<rparr>)"
proof -
  have "initialized (ready ''Alice'' 25)"
    and "database (ready ''Alice'' 25) = Some (MockDatabase True True True ''Alice'' 25 True 1)"
    and "isConnected (MockDatabase True True True ''Alice'' 25 True 1) (backend (ready ''Alice'' 25)) = (True, ())"
    by (simp_all add: ready_def MockDatabase_def)
  from gated_operations_delegate [OF this, of "''Bob''" 30 1] show ?thesis
    by (simp add: ready_def MockDatabase_def)
qed

text \<open>
  C9. Two calls of \<open>getUserInfo\<close> for the same id, one after the other, against a backend
  whose answers are the same both times (the same \<open>isConnected\<close>, name and age, whatever
  happens to the backend's state in between) return the same string.
\<close>

theorem getUserInfo_repeatable:
  assumes "database s = Some d"
    and "getUserInfo userId s = Inr (r, s1)"
    and "isConnected d (backend s) = (c, b1)"
    and "getUserName d userId b1 = (name, b2)"
    and "getUserAge d userId b2 = (age, b3)"
    and "isConnected d (backend s1) = (c, b4)"
    and "getUserName d userId b4 = (name, b5)"
    and "getUserAge d userId b5 = (age, b6)"
  shows "\<exists>s2. getUserInfo userId s1 = Inr (r, s2)"
proof -
  from assms(2) have f: "initialized s1 = initialized s" "database s1 = Some d"
    using getUserInfo_frame [OF assms(2)] assms(1) by simp_all
  show ?thesis
  proof (cases "initialized s")
    case False
    with assms(2) f show ?thesis by (simp add: getUserInfo_uninitialized)
  next
    case True
    then have i1: "initialized s1" using f by simp
    show ?thesis
    proof (cases c)
      case False
      with assms(3,6) have c0: "isConnected d (backend s) = (False, b1)"
        and c1: "isConnected d (backend s1) = (False, b4)" by simp_all
      from getUserInfo_closed [OF True assms(1) c0] assms(2) have "r = []" by simp
      with getUserInfo_closed [OF i1 f(2) c1] show ?thesis by simp
    next
      case c: True
      with assms(3,6) have c0: "isConnected d (backend s) = (True, b1)"
        and c1: "isConnected d (backend s1) = (True, b4)" by simp_all
      from getUserInfo_open [OF True assms(1) c0 assms(4,5)] assms(2)
      have "r = (if name = [] then [] else ''Name: '' @ name @ '', Age: '' @ to_string age)"
        by simp
      with getUserInfo_open [OF i1 f(2) c1 assms(7,8)] show ?thesis by simp
    qed
  qed
qed

theorem getUserInfo_repeatable_witness:
  "getUserInfo 1 (ready ''Alice'' 25)
     = Inr (''Name: Alice, Age: 25'',
            (ready ''Alice'' 25)\<lparr>calls := [Connect ''test'', IsConnected, GetUserName 1, GetUserAge 1]\<rparr>)
   \<and> (\<exists>s2. getUserInfo 1
          ((ready ''Alice'' 25)\<lparr>calls := [Connect ''test'', IsConnected, GetUserName 1, GetUserAge 1]\<rparr>)
        = Inr (''Name: Alice, Age: 25'', s2))"
proof -
  let ?d = "MockDatabase True True True ''Alice'' 25 True 1"
  let ?s1 = "(ready ''Alice'' 25)\<lparr>calls := [Connect ''test'', IsConnected, GetUserName 1, GetUserAge 1]\<rparr>"
  have 1: "getUserInfo 1 (ready ''Alice'' 25) = Inr (''Name: Alice, Age: 25'', ?s1)"
    by (simp add: getUserInfo_def gate_closed_def vcall_def ready_def MockDatabase_def to_string_25)
  have "database (ready ''Alice'' 25) = Some ?d"
    and "isConnected ?d (backend (ready ''Alice'' 25)) = (True, ())"
    and "getUserName ?d 1 () = (''Alice'', ())"
    and "getUserAge ?d 1 () = (25, ())"
    and "isConnected ?d (backend ?s1) = (True, ())"
    by (simp_all add: ready_def MockDatabase_def)
  from getUserInfo_repeatable [OF this(1) 1 this(2,3,4,5) this(3,4)] 1 show ?thesis by simp
qed

text \<open>
  C10. A service constructed with the null pointer never dereferences it: every sequence of
  operations runs to its end without a fault, each operation returns its sentinel (false,
  the empty string, \<open>-1\<close>), and the service stays as constructed, with \<open>initialized_\<close>
  false and no call logged.
\<close>

theorem null_backend_safe: "run qs (DatabaseService None b) = Inr (map sentinel qs, DatabaseService None b)"
  by (rule run_null) (simp_all add: DatabaseService_def)

theorem null_backend_safe_witness:
  "run [InitializeConnection ''test'', CreateUser ''Alice'' 25, GetUserInfo 1, RemoveUser 1, GetTotalUsers]
       (DatabaseService None ())
     = Inr ([RBool False, RBool False, RString [], RBool False, RInt (- 1)], DatabaseService None ())"
  using null_backend_safe [of "[InitializeConnection ''test'', CreateUser ''Alice'' 25, GetUserInfo 1, RemoveUser 1, GetTotalUsers]" "()"]
  by simp

end
